theory Spec2Isabelle
  imports Main "HOL-Library.Word"
begin

unbundle bit_operations_syntax

section \<open>Machine integers\<close>

text \<open>
  \<open>u8\<close> (also \<open>byte\<close>) and \<open>u16\<close> are the fixed-width unsigned types of
  \<open>libhal/units.hpp\<close>. Arithmetic and bitwise operators of C++ promote both to \<open>int\<close>
  first; \<open>c_int\<close> is that promoted type (32 bits on every target of the library). A
  \<open>static_cast\<close> to a narrower unsigned type keeps the low bits, which is \<open>ucast\<close>.
  \<open>size_t\<close> values are modelled as \<open>nat\<close>: the only arithmetic done on them here is an
  addition whose result is truncated to 16 bits at once, and that truncation is the same for
  every width of \<open>size_t\<close>.
\<close>

type_synonym u8 = "8 word"
type_synonym u16 = "16 word"
type_synonym c_int = "32 word"

section \<open>Enumerations (data structures header)\<close>

datatype usb_class_code =
    USE_INTERFACE_DESCRIPTOR
  | AUDIO
  | CDC_CONTROL
  | HID
  | PHYSICAL
  | IMAGE
  | PRINTER
  | MASS_STORAGE
  | HUB
  | CDC_DATA
  | SMART_CARD
  | CONTENT_SECURITY
  | VIDEO
  | PERSONAL_HEALTHCARE
  | AUDIO_VIDEO
  | BILLBOARD
  | USB_C_BRIDGE
  | BULK_DISPLAY
  | MCTP
  | I3C
  | DIAGNOSTIC
  | WIRELESS_CONTROLLER
  | MISC
  | APPLICATION_SPECIFIC
  | VENDOR_SPECIFIC

text \<open>\<open>static_cast<u8>\<close> of a class code: the enumerator's declared value.\<close>

fun usb_class_code_u8 :: "usb_class_code \<Rightarrow> u8" where
  "usb_class_code_u8 USE_INTERFACE_DESCRIPTOR = 0x00"
| "usb_class_code_u8 AUDIO = 0x01"
| "usb_class_code_u8 CDC_CONTROL = 0x02"
| "usb_class_code_u8 HID = 0x03"
| "usb_class_code_u8 PHYSICAL = 0x05"
| "usb_class_code_u8 IMAGE = 0x06"
| "usb_class_code_u8 PRINTER = 0x07"
| "usb_class_code_u8 MASS_STORAGE = 0x08"
| "usb_class_code_u8 HUB = 0x09"
| "usb_class_code_u8 CDC_DATA = 0x0A"
| "usb_class_code_u8 SMART_CARD = 0x0B"
| "usb_class_code_u8 CONTENT_SECURITY = 0x0D"
| "usb_class_code_u8 VIDEO = 0x0E"
| "usb_class_code_u8 PERSONAL_HEALTHCARE = 0x0F"
| "usb_class_code_u8 AUDIO_VIDEO = 0x10"
| "usb_class_code_u8 BILLBOARD = 0x11"
| "usb_class_code_u8 USB_C_BRIDGE = 0x12"
| "usb_class_code_u8 BULK_DISPLAY = 0x13"
| "usb_class_code_u8 MCTP = 0x14"
| "usb_class_code_u8 I3C = 0x3C"
| "usb_class_code_u8 DIAGNOSTIC = 0xDC"
| "usb_class_code_u8 WIRELESS_CONTROLLER = 0xE0"
| "usb_class_code_u8 MISC = 0xEF"
| "usb_class_code_u8 APPLICATION_SPECIFIC = 0xFE"
| "usb_class_code_u8 VENDOR_SPECIFIC = 0xFF"

datatype descriptor_type =
    DEVICE
  | CONFIGURATION
  | STRING
  | INTERFACE
  | ENDPOINT
  | DEVICE_QUALIFIER
  | OTHER_SPEED_CONFIGURATION
  | INTERFACE_POWER
  | OTG
  | DEBUG
  | INTERFACE_ASSOCIATION
  | SECURITY
  | KEY
  | ENCRYPTION_TYPE
  | BOS
  | DEVICE_CAPABILITY
  | WIRELESS_ENDPOINT_COMPANION
  | SUPERSPEED_ENDPOINT_COMPANION
  | SUPERSPEED_ENDPOINT_ISOCHRONOUS_COMPANION

fun descriptor_type_u8 :: "descriptor_type \<Rightarrow> u8" where
  "descriptor_type_u8 DEVICE = 0x1"
| "descriptor_type_u8 CONFIGURATION = 0x2"
| "descriptor_type_u8 STRING = 0x3"
| "descriptor_type_u8 INTERFACE = 0x4"
| "descriptor_type_u8 ENDPOINT = 0x5"
| "descriptor_type_u8 DEVICE_QUALIFIER = 0x6"
| "descriptor_type_u8 OTHER_SPEED_CONFIGURATION = 0x7"
| "descriptor_type_u8 INTERFACE_POWER = 0x8"
| "descriptor_type_u8 OTG = 0x9"
| "descriptor_type_u8 DEBUG = 0xA"
| "descriptor_type_u8 INTERFACE_ASSOCIATION = 0xB"
| "descriptor_type_u8 SECURITY = 0xC"
| "descriptor_type_u8 KEY = 0xD"
| "descriptor_type_u8 ENCRYPTION_TYPE = 0xE"
| "descriptor_type_u8 BOS = 0xF"
| "descriptor_type_u8 DEVICE_CAPABILITY = 0x10"
| "descriptor_type_u8 WIRELESS_ENDPOINT_COMPANION = 0x11"
| "descriptor_type_u8 SUPERSPEED_ENDPOINT_COMPANION = 0x30"
| "descriptor_type_u8 SUPERSPEED_ENDPOINT_ISOCHRONOUS_COMPANION = 0x31"

section \<open>Errors\<close>

text \<open>
  \<open>safe_throw(hal::argument_out_of_domain(this))\<close> leaves the running function with an
  exception; it is the only error of these classes.
\<close>

datatype error = argument_out_of_domain

section \<open>Storage that no initialiser has written\<close>

text \<open>
  A \<open>std::array<byte, 9>\<close> member without an initialiser holds, element by element,
  whatever its storage held before the constructor ran. That content is a parameter
  \<open>uninit\<close> of the constructors (the byte found at each index), so that a byte the
  constructor never assigns stays visible as \<open>uninit k\<close> in the result.
\<close>

definition uninit_array9 :: "(nat \<Rightarrow> u8) \<Rightarrow> u8 list" where
  "uninit_array9 uninit =
     [uninit 0, uninit 1, uninit 2, uninit 3, uninit 4, uninit 5, uninit 6, uninit 7, uninit 8]"

section \<open>pack_u16_le\<close>

text \<open>
  \<open>{ static_cast<byte>(p_dat & 0xFF), static_cast<byte>((p_dat & (0xFF << 8)) >> 8) }\<close>:
  \<open>p_dat\<close> is promoted to \<open>int\<close>, masked and shifted there, and cast back to a byte.
\<close>

definition pack_u16_le :: "u16 \<Rightarrow> u8 list" where
  "pack_u16_le p_dat =
     [ ucast ((ucast p_dat :: c_int) AND 0xFF),
       ucast (drop_bit 8 ((ucast p_dat :: c_int) AND push_bit 8 0xFF)) ]"

section \<open>usb_interface\<close>

subsection \<open>interface_settings\<close>

record interface_settings =
  m_num_endpoints :: u8
  m_class :: usb_class_code
  m_subclass :: u8
  m_protocol :: u8
  m_str_name_idx :: u8

text \<open>
  The constructor of \<open>interface_settings\<close>. An exception leaving a constructor leaves no
  object behind, so the result is either the error or the finished settings value.
\<close>

definition interface_settings_init ::
  "u8 \<Rightarrow> usb_class_code \<Rightarrow> u8 \<Rightarrow> u8 \<Rightarrow> u8 \<Rightarrow> error + interface_settings" where
  "interface_settings_init p_num_endpoints p_class p_subclass p_protocol p_str_name_idx =
     (if p_class = USE_INTERFACE_DESCRIPTOR \<or> p_class = HUB \<or> p_class = BILLBOARD
      then Inl argument_out_of_domain
      else Inr \<lparr> m_num_endpoints = p_num_endpoints,
                 m_class = p_class,
                 m_subclass = p_subclass,
                 m_protocol = p_protocol,
                 m_str_name_idx = p_str_name_idx \<rparr>)"

subsection \<open>The control endpoint\<close>

text \<open>
  Modelled from the spec: \<open>usb_control_endpoint\<close> is declared in \<open>endpoints.hpp\<close>, which
  is not among the sources. The spec describes it as a capability exposing raw write of byte
  sequences; its state here is the sequence of buffers written to it so far, and
  \<open>ctrl_endpoint_write\<close> is what a write through the reference does to that state.
\<close>

record usb_control_endpoint =
  written :: "u8 list list"

definition ctrl_endpoint_write :: "usb_control_endpoint \<Rightarrow> u8 list \<Rightarrow> usb_control_endpoint" where
  "ctrl_endpoint_write ep p_buffer = ep \<lparr> written := written ep @ [p_buffer] \<rparr>"

subsection \<open>The class\<close>

text \<open>
  The data members of \<open>usb_interface\<close>. \<open>m_settings\<close> is a span of (index, settings)
  pairs: a list, searched front to back. \<open>m_ctrl_endpoint\<close> is a reference; the record
  holds the state of the endpoint it refers to, so that a write through the reference would
  show as a change of this field.
\<close>

record usb_interface =
  m_packed_data :: "u8 list"
  m_settings :: "(u8 \<times> interface_settings) list"
  m_selected_setting_number :: u8
  m_ctrl_endpoint :: usb_control_endpoint

text \<open>The range-for loop of \<open>get_interface_setting\<close>, and the throw after it.\<close>

fun find_setting :: "(u8 \<times> interface_settings) list \<Rightarrow> u8 \<Rightarrow> error + interface_settings" where
  "find_setting [] p_number = Inl argument_out_of_domain"
| "find_setting (p # rest) p_number =
     (if fst p = p_number then Inr (snd p) else find_setting rest p_number)"

definition get_interface_setting ::
  "'a usb_interface_scheme \<Rightarrow> u8 \<Rightarrow> error + interface_settings" where
  "get_interface_setting this p_number = find_setting (m_settings this) p_number"

text \<open>
  \<open>set_setting\<close> returns the outcome of the call together with the object as the call
  leaves it: after an exception the caller still holds the object, in the state it had when
  the exception was thrown. The body ends in a comment where the write to the control
  endpoint would be; no statement follows it, so \<open>m_ctrl_endpoint\<close> is not touched.
\<close>

definition set_setting ::
  "'a usb_interface_scheme \<Rightarrow> u8 \<Rightarrow> (error + unit) \<times> 'a usb_interface_scheme" where
  "set_setting this p_number =
     (case get_interface_setting this p_number of
        Inl e \<Rightarrow> (Inl e, this)
      | Inr iface_setting \<Rightarrow>
          (let d4 = (m_packed_data this)[4 := m_num_endpoints iface_setting];
               d5 = d4[5 := usb_class_code_u8 (m_class iface_setting)];
               d6 = d5[6 := m_subclass iface_setting];
               d7 = d6[7 := m_protocol iface_setting];
               d8 = d7[8 := m_str_name_idx iface_setting]
           in (Inr (), this \<lparr> m_packed_data := d8, m_selected_setting_number := p_number \<rparr>)))"

definition get_interface_number :: "'a usb_interface_scheme \<Rightarrow> u8" where
  "get_interface_number this = m_packed_data this ! 2"

definition get_selected_setting_number :: "'a usb_interface_scheme \<Rightarrow> u8" where
  "get_selected_setting_number this = m_selected_setting_number this"

text \<open>
  The constructor. \<open>m_packed_data\<close> and \<open>m_selected_setting_number\<close> have no
  initialiser: they start from the storage's content (\<open>uninit\<close>, \<open>uninit_selected\<close>).
  When \<open>set_setting(0)\<close> throws, the constructor throws and no interface exists.
\<close>

definition usb_interface_init ::
  "(nat \<Rightarrow> u8) \<Rightarrow> u8 \<Rightarrow> u8 \<Rightarrow> usb_control_endpoint \<Rightarrow> (u8 \<times> interface_settings) list
     \<Rightarrow> error + usb_interface" where
  "usb_interface_init uninit uninit_selected p_iface_number p_ctrl_endpoint p_settings =
     (let d0 = (uninit_array9 uninit)[0 := 0x9];
          d1 = d0[1 := descriptor_type_u8 INTERFACE];
          d2 = d1[2 := p_iface_number];
          d3 = d2[3 := 0];
          this = \<lparr> m_packed_data = d3,
                   m_settings = p_settings,
                   m_selected_setting_number = uninit_selected,
                   m_ctrl_endpoint = p_ctrl_endpoint \<rparr>
      in case set_setting this 0 of
           (Inl e, _) \<Rightarrow> Inl e
         | (Inr _, this') \<Rightarrow> Inr this')"

text \<open>
  A run of \<open>set_setting\<close> calls that all succeed, from a given interface: \<open>None\<close> as soon
  as one of them throws.
\<close>

fun set_settings :: "usb_interface \<Rightarrow> u8 list \<Rightarrow> usb_interface option" where
  "set_settings this [] = Some this"
| "set_settings this (n # ns) =
     (case set_setting this n of
        (Inl e, _) \<Rightarrow> None
      | (Inr _, this') \<Rightarrow> set_settings this' ns)"

text \<open>
  A concrete interface class derives from \<open>usb_interface\<close> and overrides its pure virtual
  members. No such class is among the sources, so the two overriders the configuration
  calls are fields of the derived object: the value \<open>total_length()\<close> returns, and what
  \<open>write_descriptors(p_dispatch)\<close> does. The dispatch callback returns nothing and acts on
  the sink behind it; with \<open>'s\<close> the state of that sink, a callback is a function from the
  span it receives to a change of the sink.
\<close>

record 's usb_interface_impl = usb_interface +
  total_length :: nat
  write_descriptors :: "(u8 list \<Rightarrow> 's \<Rightarrow> 's) \<Rightarrow> 's \<Rightarrow> 's"

section \<open>usb_configuration\<close>

record 's usb_configuration =
  m_ifaces :: "'s usb_interface_impl list"
  m_cfg_packed_data :: "u8 list"

text \<open>
  The loop \<open>wTotalLength += iface->total_length()\<close>: the sum is formed in \<open>size_t\<close> and
  stored back into the \<open>u16\<close>, which keeps its low 16 bits.
\<close>

fun add_total_lengths :: "u16 \<Rightarrow> 's usb_interface_impl list \<Rightarrow> u16" where
  "add_total_lengths wTotalLength [] = wTotalLength"
| "add_total_lengths wTotalLength (iface # rest) =
     add_total_lengths (of_nat (unat wTotalLength + total_length iface)) rest"

text \<open>
  The constructor. The member of the class is \<open>m_packed_data\<close> as in \<open>usb_interface\<close>;
  the record field is \<open>m_cfg_packed_data\<close> to keep the two apart. \<open>m_packed_data.size()\<close>
  is 9. The \<open>bool\<close> flags are promoted to the \<open>int\<close> values 0 and 1 before the shifts.
\<close>

definition usb_configuration_init ::
  "(nat \<Rightarrow> u8) \<Rightarrow> 's usb_interface_impl list \<Rightarrow> bool \<Rightarrow> bool \<Rightarrow> u8 \<Rightarrow> 's usb_configuration" where
  "usb_configuration_init uninit p_ifaces p_self_powered p_remote_wakeup p_max_power =
     (let d0 = (uninit_array9 uninit)[0 := 9];
          d1 = d0[1 := descriptor_type_u8 CONFIGURATION];
          wTotalLength = add_total_lengths 9 p_ifaces;
          packed_total_length = pack_u16_le wTotalLength;
          d2 = d1[2 := packed_total_length ! 0];
          d3 = d2[3 := packed_total_length ! 1];
          d4 = d3[4 := of_nat (length p_ifaces)];
          bmAttributes = (ucast ((0x80 :: c_int)
                                  OR push_bit 6 (of_bool p_self_powered)
                                  OR push_bit 5 (of_bool p_remote_wakeup)) :: u8);
          d7 = d4[7 := bmAttributes];
          d8 = d7[8 := p_max_power]
      in \<lparr> m_ifaces = p_ifaces, m_cfg_packed_data = d8 \<rparr>)"

text \<open>
  The accessors read the stored header. In \<open>get_total_length\<close> byte 3 is promoted to
  \<open>int\<close>, shifted and cast to \<open>u16\<close>, byte 2 is cast to \<open>u16\<close>, and the two are
  combined with \<open>|\<close>; the second promotion of both operands for \<open>|\<close> and the
  conversion of its result back to \<open>u16\<close> change no bit and are left out.
\<close>

definition get_total_length :: "'s usb_configuration \<Rightarrow> u16" where
  "get_total_length this =
     (ucast (push_bit 8 (ucast (m_cfg_packed_data this ! 3) :: c_int)) :: u16)
       OR (ucast (m_cfg_packed_data this ! 2) :: u16)"

definition get_interface_count :: "'s usb_configuration \<Rightarrow> u8" where
  "get_interface_count this = m_cfg_packed_data this ! 4"

definition get_number :: "'s usb_configuration \<Rightarrow> u8" where
  "get_number this = m_cfg_packed_data this ! 5"

record config_attributes =
  self_powered :: bool
  remote_wakeup :: bool

definition get_attributes :: "'s usb_configuration \<Rightarrow> config_attributes" where
  "get_attributes this =
     (let bm = m_cfg_packed_data this ! 7
      in \<lparr> self_powered = ((ucast bm :: c_int) AND push_bit 6 1) \<noteq> 0,
            remote_wakeup = ((ucast bm :: c_int) AND push_bit 5 1) \<noteq> 0 \<rparr>)"

definition get_max_power :: "'s usb_configuration \<Rightarrow> u8" where
  "get_max_power this = m_cfg_packed_data this ! 8"

text \<open>
  \<open>usb_configuration::write_descriptors\<close>: the loop over \<open>m_ifaces\<close> first, then the
  member function, which calls the callback on the header before it enters the loop.
\<close>

fun write_iface_descriptors ::
  "'s usb_interface_impl list \<Rightarrow> (u8 list \<Rightarrow> 's \<Rightarrow> 's) \<Rightarrow> 's \<Rightarrow> 's" where
  "write_iface_descriptors [] p_dispatch sink = sink"
| "write_iface_descriptors (iface # rest) p_dispatch sink =
     write_iface_descriptors rest p_dispatch (write_descriptors iface p_dispatch sink)"

definition usb_configuration_write_descriptors ::
  "'s usb_configuration \<Rightarrow> (u8 list \<Rightarrow> 's \<Rightarrow> 's) \<Rightarrow> 's \<Rightarrow> 's" where
  "usb_configuration_write_descriptors this p_dispatch sink =
     write_iface_descriptors (m_ifaces this) p_dispatch
       (p_dispatch (m_cfg_packed_data this) sink)"

section \<open>Objects used in the worked examples\<close>

text \<open>Two legal settings, an idle control endpoint, and an interface built from them.\<close>

definition ex_setting0 :: interface_settings where
  "ex_setting0 = \<lparr> m_num_endpoints = 2, m_class = HID, m_subclass = 1,
                    m_protocol = 2, m_str_name_idx = 3 \<rparr>"

definition ex_setting1 :: interface_settings where
  "ex_setting1 = \<lparr> m_num_endpoints = 4, m_class = AUDIO, m_subclass = 5,
                    m_protocol = 6, m_str_name_idx = 7 \<rparr>"

definition ex_endpoint :: usb_control_endpoint where
  "ex_endpoint = \<lparr> written = [] \<rparr>"

text \<open>
  \<open>ex_iface0\<close> is interface number 7 as its constructor leaves it, \<open>ex_iface1\<close> the same
  interface after \<open>set_setting(1)\<close>.
\<close>

definition ex_iface0 :: usb_interface where
  "ex_iface0 = \<lparr> m_packed_data = [9, 4, 7, 0, 2, 3, 1, 2, 3],
                  m_settings = [(0, ex_setting0), (1, ex_setting1)],
                  m_selected_setting_number = 0,
                  m_ctrl_endpoint = ex_endpoint \<rparr>"

definition ex_iface1 :: usb_interface where
  "ex_iface1 = \<lparr> m_packed_data = [9, 4, 7, 0, 4, 1, 5, 6, 7],
                  m_settings = [(0, ex_setting0), (1, ex_setting1)],
                  m_selected_setting_number = 1,
                  m_ctrl_endpoint = ex_endpoint \<rparr>"

text \<open>
  A dispatch callback whose sink is a counter: it adds the size of each span it is handed.
\<close>

definition count_bytes :: "u8 list \<Rightarrow> nat \<Rightarrow> nat" where
  "count_bytes p_buffer pushed = pushed + length p_buffer"

text \<open>
  A concrete interface: it pushes its own nine header bytes and then \<open>payload\<close> further
  bytes of endpoint descriptors, and reports the sum as its \<open>total_length()\<close>.
\<close>

definition ex_concrete_interface :: "nat \<Rightarrow> nat usb_interface_impl" where
  "ex_concrete_interface payload =
     \<lparr> m_packed_data = [9, 4, 7, 0, 2, 3, 1, 2, 3],
       m_settings = [(0, ex_setting0), (1, ex_setting1)],
       m_selected_setting_number = 0,
       m_ctrl_endpoint = ex_endpoint,
       total_length = 9 + payload,
       write_descriptors =
         (\<lambda>p_dispatch sink.
            p_dispatch (replicate payload 0) (p_dispatch [9, 4, 7, 0, 2, 3, 1, 2, 3] sink)) \<rparr>"

section \<open>Auxiliary facts\<close>

text \<open>The search loop finds the first pair with the key, as \<open>map_of\<close> does.\<close>

lemma find_setting_map_of:
  "find_setting ps n =
     (case map_of ps n of None \<Rightarrow> Inl argument_out_of_domain | Some st \<Rightarrow> Inr st)"
  by (induction ps) auto

lemma array9_elems:
  assumes "length xs = 9"
  obtains a0 a1 a2 a3 a4 a5 a6 a7 a8 where "xs = [a0, a1, a2, a3, a4, a5, a6, a7, a8]"
  using assms by (auto simp: numeral_eq_Suc length_Suc_conv)

lemma set_setting_found:
  assumes "length (m_packed_data this) = 9" and "map_of (m_settings this) i = Some st"
  shows "set_setting this i =
           (Inr (), this \<lparr> m_packed_data := take 4 (m_packed_data this) @
                              [m_num_endpoints st, usb_class_code_u8 (m_class st),
                               m_subclass st, m_protocol st, m_str_name_idx st],
                            m_selected_setting_number := i \<rparr>)"
proof -
  from assms(1) obtain a0 a1 a2 a3 a4 a5 a6 a7 a8
    where xs: "m_packed_data this = [a0, a1, a2, a3, a4, a5, a6, a7, a8]"
    by (rule array9_elems)
  show ?thesis
    by (simp add: set_setting_def get_interface_setting_def find_setting_map_of assms(2) xs)
qed

lemma set_setting_missing:
  assumes "map_of (m_settings this) i = None"
  shows "set_setting this i = (Inl argument_out_of_domain, this)"
  by (simp add: set_setting_def get_interface_setting_def find_setting_map_of assms)

text \<open>The two bytes of \<open>pack_u16_le\<close> are the low and the high byte of its argument.\<close>

lemma c_int_ff_mask: "(0xFF :: c_int) = mask 8"
  by (simp add: mask_eq_exp_minus_1)

lemma pack_u16_le_low: "(ucast ((ucast (v :: u16) :: c_int) AND 0xFF) :: u8) = ucast v"
  unfolding c_int_ff_mask
  by (rule bit_word_eqI) (auto simp: bit_simps)

lemma pack_u16_le_high:
  "(ucast (drop_bit 8 ((ucast (v :: u16) :: c_int) AND push_bit 8 0xFF)) :: u8)
     = ucast (drop_bit 8 v)"
  unfolding c_int_ff_mask
  by (rule bit_word_eqI) (auto simp: bit_simps)

lemma pack_u16_le_bytes: "pack_u16_le v = [ucast v, ucast (drop_bit 8 v)]"
  unfolding pack_u16_le_def pack_u16_le_low pack_u16_le_high by (rule refl)

text \<open>Success of \<open>set_setting\<close>, and of a run of such calls after the constructor.\<close>

lemma set_setting_success:
  assumes "set_setting this i = (Inr u, this')" and "length (m_packed_data this) = 9"
  shows "length (m_packed_data this') = 9 \<and>
         take 4 (m_packed_data this') = take 4 (m_packed_data this) \<and>
         m_selected_setting_number this' = i \<and>
         m_ctrl_endpoint this' = m_ctrl_endpoint this"
proof (cases "map_of (m_settings this) i")
  case None
  with assms(1) show ?thesis by (simp add: set_setting_missing)
next
  case (Some st)
  with assms show ?thesis by (auto simp: set_setting_found)
qed

lemma set_settings_invariant:
  assumes "set_settings this ns = Some this'" and "length (m_packed_data this) = 9"
  shows "length (m_packed_data this') = 9 \<and>
         take 4 (m_packed_data this') = take 4 (m_packed_data this) \<and>
         m_selected_setting_number this' = last (m_selected_setting_number this # ns)"
  using assms
proof (induction ns arbitrary: this)
  case Nil
  then show ?case by simp
next
  case (Cons n ns)
  obtain r mid where step: "set_setting this n = (r, mid)"
    by (cases "set_setting this n")
  with Cons.prems(1) obtain u where r: "r = Inr u" and rest: "set_settings mid ns = Some this'"
    by (cases r) simp_all
  from step r Cons.prems(2) have mid:
    "length (m_packed_data mid) = 9"
    "take 4 (m_packed_data mid) = take 4 (m_packed_data this)"
    "m_selected_setting_number mid = n"
    using set_setting_success [of this n u mid] by simp_all
  from Cons.IH [OF rest mid(1)] mid show ?case by simp
qed

lemma usb_interface_init_result:
  assumes "usb_interface_init uninit uninit_selected n ep p_settings = Inr this"
  shows "length (m_packed_data this) = 9 \<and> take 4 (m_packed_data this) = [9, 4, n, 0] \<and>
         m_selected_setting_number this = 0"
proof (cases "map_of p_settings 0")
  case None
  with assms show ?thesis
    by (simp add: usb_interface_init_def uninit_array9_def set_setting_missing)
next
  case (Some st)
  with assms show ?thesis
    by (auto simp: usb_interface_init_def uninit_array9_def set_setting_found)
qed

text \<open>The example interface is what its constructor and \<open>set_setting(1)\<close> produce.\<close>

lemma ex_iface0_built:
  "usb_interface_init (\<lambda>_. 0xAA) 0xBB 7 ex_endpoint [(0, ex_setting0), (1, ex_setting1)]
     = Inr ex_iface0"
  by (simp add: usb_interface_init_def uninit_array9_def set_setting_def
      get_interface_setting_def ex_iface0_def ex_setting0_def)

lemma ex_iface1_selected: "set_setting ex_iface0 1 = (Inr (), ex_iface1)"
  by (simp add: set_setting_def get_interface_setting_def ex_iface0_def ex_iface1_def
      ex_setting0_def ex_setting1_def)

text \<open>The configuration: its two loops, its 16-bit total, and its header byte by byte.\<close>

lemma write_iface_descriptors_foldl:
  "write_iface_descriptors ifaces d s = foldl (\<lambda>s i. write_descriptors i d s) s ifaces"
  by (induction ifaces arbitrary: s) simp_all

lemma write_iface_descriptors_size:
  assumes "\<forall>i \<in> set ifaces. \<forall>s. sz (write_descriptors i d s) = sz s + total_length i"
  shows "sz (write_iface_descriptors ifaces d s) = sz s + sum_list (map total_length ifaces)"
  using assms by (induction ifaces arbitrary: s) simp_all

lemma add_total_lengths_sum:
  "add_total_lengths w ifaces = of_nat (unat w + sum_list (map total_length ifaces))"
proof (induction ifaces arbitrary: w)
  case Nil
  show ?case by simp
next
  case (Cons i rest)
  show ?case by (simp add: Cons.IH add.assoc)
qed

lemma unat_add_total_lengths:
  "unat (add_total_lengths w ifaces) = (unat w + sum_list (map total_length ifaces)) mod 65536"
  by (simp only: add_total_lengths_sum unat_of_nat) simp

lemma bmAttributes_cases:
  "(ucast ((0x80 :: c_int) OR push_bit 6 (of_bool sp) OR push_bit 5 (of_bool rw)) :: u8)
     = 0x80 + (if sp then 0x40 else 0) + (if rw then 0x20 else 0)"
  by (cases sp; cases rw; simp)

lemma usb_configuration_init_header:
  "m_cfg_packed_data (usb_configuration_init uninit ifaces sp rw mp) =
     [9, 2, ucast (add_total_lengths 9 ifaces), ucast (drop_bit 8 (add_total_lengths 9 ifaces)),
      of_nat (length ifaces), uninit 5, uninit 6,
      0x80 + (if sp then 0x40 else 0) + (if rw then 0x20 else 0), mp]"
  unfolding usb_configuration_init_def Let_def bmAttributes_cases pack_u16_le_bytes uninit_array9_def
  by simp

lemma usb_configuration_init_ifaces:
  "m_ifaces (usb_configuration_init uninit ifaces sp rw mp) = ifaces"
  by (simp add: usb_configuration_init_def Let_def)

lemma decode_u16_le:
  "(ucast (push_bit 8 (ucast (ucast (drop_bit 8 (w :: u16)) :: u8) :: c_int)) :: u16)
     OR (ucast (ucast w :: u8) :: u16) = w"
  by (rule bit_word_eqI) (auto simp: bit_simps)

lemma get_total_length_init:
  "get_total_length (usb_configuration_init uninit ifaces sp rw mp) = add_total_lengths 9 ifaces"
  by (simp add: get_total_length_def usb_configuration_init_header decode_u16_le)

lemma unat_get_total_length_init:
  "unat (get_total_length (usb_configuration_init uninit ifaces sp rw mp))
     = (9 + sum_list (map total_length ifaces)) mod 65536"
  by (simp add: get_total_length_init unat_add_total_lengths)


lemma ex_concrete_interface_pushes:
  "write_descriptors (ex_concrete_interface payload) count_bytes pushed
     = pushed + total_length (ex_concrete_interface payload)"
  by (simp add: ex_concrete_interface_def count_bytes_def)

lemma ex_concrete_interface_total_length:
  "total_length (ex_concrete_interface payload) = 9 + payload"
  by (simp add: ex_concrete_interface_def)

section \<open>The claims\<close>

text \<open>
  C1 (as amended). For a configuration built from the interfaces \<open>ifaces\<close>,
  \<open>write_descriptors(p_dispatch)\<close> calls the callback first on the configuration's own
  header, which has nine bytes, and then calls \<open>write_descriptors\<close> of each interface with
  the same callback, from the first interface to the last, each call starting from the sink as
  the call before left it. With a sink whose size \<open>sz\<close> grows by the length of every span
  pushed, and interfaces that each push exactly \<open>total_length()\<close> bytes, the bytes pushed
  are 9 plus the sum of the interfaces' total lengths. That number is \<open>get_total_length()\<close>
  whenever it is at most 65535.
\<close>

theorem write_descriptors_header_then_interfaces:
  assumes "\<forall>b s. sz (d b s) = sz s + length b"
      and "\<forall>i \<in> set ifaces. \<forall>s. sz (write_descriptors i d s) = sz s + total_length i"
  shows "length (m_cfg_packed_data (usb_configuration_init uninit ifaces sp rw mp)) = 9 \<and>
         usb_configuration_write_descriptors (usb_configuration_init uninit ifaces sp rw mp) d s
           = foldl (\<lambda>s i. write_descriptors i d s)
               (d (m_cfg_packed_data (usb_configuration_init uninit ifaces sp rw mp)) s) ifaces \<and>
         sz (usb_configuration_write_descriptors
               (usb_configuration_init uninit ifaces sp rw mp) d s)
           = sz s + 9 + sum_list (map total_length ifaces) \<and>
         (9 + sum_list (map total_length ifaces) \<le> 65535 \<longrightarrow>
            sz (usb_configuration_write_descriptors
                  (usb_configuration_init uninit ifaces sp rw mp) d s)
              = sz s + unat (get_total_length (usb_configuration_init uninit ifaces sp rw mp)))"
proof -
  let ?c = "usb_configuration_init uninit ifaces sp rw mp"
  have len: "length (m_cfg_packed_data ?c) = 9"
    by (simp add: usb_configuration_init_header)
  have order: "usb_configuration_write_descriptors ?c d s
           = foldl (\<lambda>s i. write_descriptors i d s) (d (m_cfg_packed_data ?c) s) ifaces"
    by (simp add: usb_configuration_write_descriptors_def usb_configuration_init_ifaces
        write_iface_descriptors_foldl)
  have "sz (usb_configuration_write_descriptors ?c d s)
          = sz (d (m_cfg_packed_data ?c) s) + sum_list (map total_length ifaces)"
    unfolding usb_configuration_write_descriptors_def usb_configuration_init_ifaces
    by (rule write_iface_descriptors_size [OF assms(2)])
  with assms(1) len
  have pushed: "sz (usb_configuration_write_descriptors ?c d s)
          = sz s + 9 + sum_list (map total_length ifaces)"
    by simp
  have "unat (get_total_length ?c) = (9 + sum_list (map total_length ifaces)) mod 65536"
    by (rule unat_get_total_length_init)
  with pushed have
    "9 + sum_list (map total_length ifaces) \<le> 65535 \<longrightarrow>
       sz (usb_configuration_write_descriptors ?c d s) = sz s + unat (get_total_length ?c)"
    by simp
  with len order pushed show ?thesis by blast
qed

theorem write_descriptors_header_then_interfaces_witness:
  "usb_configuration_write_descriptors
     (usb_configuration_init (\<lambda>_. 0xAA)
        [ex_concrete_interface 7, ex_concrete_interface 14] True False 50) count_bytes 0 = 48 \<and>
   unat (get_total_length
           (usb_configuration_init (\<lambda>_. 0xAA)
              [ex_concrete_interface 7, ex_concrete_interface 14] True False 50)) = 48"
proof -
  let ?ifaces = "[ex_concrete_interface 7, ex_concrete_interface 14]"
  have sink: "\<forall>b s. id (count_bytes b s) = id s + length b"
    by (simp add: count_bytes_def)
  have ifaces: "\<forall>i \<in> set ?ifaces. \<forall>s. id (write_descriptors i count_bytes s) = id s + total_length i"
    by (simp add: ex_concrete_interface_pushes)
  have small: "9 + sum_list (map total_length ?ifaces) \<le> 65535"
    by (simp add: ex_concrete_interface_total_length)
  from write_descriptors_header_then_interfaces [OF sink ifaces, of "\<lambda>_. 0xAA" True False 50 0] small
  show ?thesis
    by (simp add: ex_concrete_interface_total_length)
qed

text \<open>
  C1 as stated fails when the descriptors are longer than a 16-bit length can say. One
  interface pushes exactly its \<open>total_length()\<close> of 65536 bytes; the configuration pushes
  65545 bytes in all, and \<open>get_total_length()\<close> is 9.
\<close>

theorem pushed_bytes_exceed_total_length:
  "(\<forall>pushed. write_descriptors (ex_concrete_interface 65527) count_bytes pushed
               = pushed + total_length (ex_concrete_interface 65527 :: nat usb_interface_impl)) \<and>
   usb_configuration_write_descriptors
     (usb_configuration_init (\<lambda>_. 0xAA) [ex_concrete_interface 65527] True False 50)
     count_bytes 0 = 65545 \<and>
   unat (get_total_length
           (usb_configuration_init (\<lambda>_. 0xAA)
              [ex_concrete_interface 65527] True False 50)) = 9"
proof -
  have "usb_configuration_write_descriptors
     (usb_configuration_init (\<lambda>_. 0xAA) [ex_concrete_interface 65527] True False 50)
     count_bytes 0 = 65545"
    by (simp add: usb_configuration_write_descriptors_def usb_configuration_init_ifaces
        usb_configuration_init_header ex_concrete_interface_pushes
        ex_concrete_interface_total_length count_bytes_def)
  moreover have "unat (get_total_length
           (usb_configuration_init (\<lambda>_. 0xAA)
              [ex_concrete_interface 65527] True False 50)) = 9"
    by (simp add: unat_get_total_length_init ex_concrete_interface_total_length)
  ultimately show ?thesis
    by (simp add: ex_concrete_interface_pushes)
qed

text \<open>
  C2 (as amended). \<open>get_total_length()\<close> decodes exactly the 16-bit value the constructor
  packed into header bytes 2 and 3, for every such value. That value is 9 plus the sum of the
  interfaces' \<open>total_length()\<close>, reduced modulo 65536 by the \<open>u16\<close> accumulator; it is
  the sum itself whenever the sum is at most 65535.
\<close>

theorem get_total_length_mod_65536:
  "get_total_length (usb_configuration_init uninit ifaces sp rw mp) = add_total_lengths 9 ifaces \<and>
   unat (get_total_length (usb_configuration_init uninit ifaces sp rw mp))
     = (9 + sum_list (map total_length ifaces)) mod 65536 \<and>
   (9 + sum_list (map total_length ifaces) \<le> 65535 \<longrightarrow>
      unat (get_total_length (usb_configuration_init uninit ifaces sp rw mp))
        = 9 + sum_list (map total_length ifaces))"
proof -
  have "unat (get_total_length (usb_configuration_init uninit ifaces sp rw mp))
          = (9 + sum_list (map total_length ifaces)) mod 65536"
    by (rule unat_get_total_length_init)
  then show ?thesis
    by (simp add: get_total_length_init)
qed

theorem get_total_length_mod_65536_witness:
  "9 + sum_list (map total_length [ex_concrete_interface 7, ex_concrete_interface 14]) \<le> 65535 \<and>
   unat (get_total_length
           (usb_configuration_init (\<lambda>_. 0xAA)
              [ex_concrete_interface 7, ex_concrete_interface 14] True False 50)) = 48"
  using get_total_length_mod_65536
          [of "\<lambda>_. 0xAA" "[ex_concrete_interface 7, ex_concrete_interface 14]" True False 50]
  by (simp add: ex_concrete_interface_total_length)

text \<open>
  C2 as stated fails for a sum beyond 16 bits: two interfaces of 40000 bytes each give the sum
  80009, and \<open>get_total_length()\<close> returns 14473.
\<close>

theorem get_total_length_wraps:
  "9 + sum_list (map total_length [ex_concrete_interface 39991, ex_concrete_interface 39991])
     = 80009 \<and>
   unat (get_total_length
           (usb_configuration_init (\<lambda>_. 0xAA)
              [ex_concrete_interface 39991, ex_concrete_interface 39991] True False 50)) = 14473"
  by (simp add: unat_get_total_length_init ex_concrete_interface_total_length)

text \<open>
  C3. \<open>set_setting(i)\<close> on any interface (its header being the nine bytes of the array):
  when \<open>i\<close> is a key of the settings, the call returns normally, the selected setting number
  becomes \<open>i\<close>, and the header keeps its bytes 0 to 3 and has bytes 4 to 8 equal to the
  endpoint count, class, subclass, protocol and string index of the setting found (the first
  pair with key \<open>i\<close>); when \<open>i\<close> is not a key, the call throws argument-out-of-domain and
  the whole object, header and selected setting number included, is as it was.
\<close>

theorem set_setting_commits_or_leaves:
  assumes "length (m_packed_data this) = 9"
  shows "(map_of (m_settings this) i = Some st \<longrightarrow>
            fst (set_setting this i) = Inr () \<and>
            get_selected_setting_number (snd (set_setting this i)) = i \<and>
            m_packed_data (snd (set_setting this i)) =
              take 4 (m_packed_data this) @
                [m_num_endpoints st, usb_class_code_u8 (m_class st),
                 m_subclass st, m_protocol st, m_str_name_idx st]) \<and>
         (map_of (m_settings this) i = None \<longrightarrow>
            set_setting this i = (Inl argument_out_of_domain, this))"
  using assms
  by (simp add: set_setting_found set_setting_missing get_selected_setting_number_def)

theorem set_setting_commits_or_leaves_witness:
  "set_setting ex_iface0 1 = (Inr (), ex_iface1) \<and>
   get_selected_setting_number (snd (set_setting ex_iface0 1)) = 1 \<and>
   m_packed_data (snd (set_setting ex_iface0 1)) = [9, 4, 7, 0, 4, 1, 5, 6, 7] \<and>
   set_setting ex_iface0 2 = (Inl argument_out_of_domain, ex_iface0)"
proof -
  have len: "length (m_packed_data ex_iface0) = 9"
    by (simp add: ex_iface0_def)
  have present: "map_of (m_settings ex_iface0) 1 = Some ex_setting1"
    by (simp add: ex_iface0_def)
  have absent: "map_of (m_settings ex_iface0) 2 = None"
    by (simp add: ex_iface0_def)
  from set_setting_commits_or_leaves [OF len, of 1 ex_setting1] present
  have a: "fst (set_setting ex_iface0 1) = Inr ()"
    and b: "get_selected_setting_number (snd (set_setting ex_iface0 1)) = 1"
    and c: "m_packed_data (snd (set_setting ex_iface0 1)) = [9, 4, 7, 0, 4, 1, 5, 6, 7]"
    by (simp_all add: ex_iface0_def ex_setting1_def)
  from set_setting_commits_or_leaves [OF len, of 2] absent
  have d: "set_setting ex_iface0 2 = (Inl argument_out_of_domain, ex_iface0)"
    by simp
  from a b c d ex_iface1_selected show ?thesis by simp
qed

text \<open>
  C4. Constructing an \<open>interface_settings\<close> with class code
  \<open>USE_INTERFACE_DESCRIPTOR\<close>, \<open>HUB\<close> or \<open>BILLBOARD\<close> throws argument-out-of-domain and
  yields no settings value; with every other class code it succeeds and the value holds the
  endpoint count, class, subclass, protocol and string index that were supplied.
\<close>

theorem interface_settings_init_class_check:
  "(p_class \<in> {USE_INTERFACE_DESCRIPTOR, HUB, BILLBOARD} \<longrightarrow>
      interface_settings_init p_num_endpoints p_class p_subclass p_protocol p_str_name_idx =
        Inl argument_out_of_domain) \<and>
   (p_class \<notin> {USE_INTERFACE_DESCRIPTOR, HUB, BILLBOARD} \<longrightarrow>
      interface_settings_init p_num_endpoints p_class p_subclass p_protocol p_str_name_idx =
        Inr \<lparr> m_num_endpoints = p_num_endpoints, m_class = p_class, m_subclass = p_subclass,
              m_protocol = p_protocol, m_str_name_idx = p_str_name_idx \<rparr>)"
  by (simp add: interface_settings_init_def)

theorem interface_settings_init_class_check_witness:
  "interface_settings_init 2 USE_INTERFACE_DESCRIPTOR 1 2 3 = Inl argument_out_of_domain \<and>
   interface_settings_init 2 HUB 1 2 3 = Inl argument_out_of_domain \<and>
   interface_settings_init 2 BILLBOARD 1 2 3 = Inl argument_out_of_domain \<and>
   interface_settings_init 2 HID 1 2 3 = Inr ex_setting0"
  using interface_settings_init_class_check [of USE_INTERFACE_DESCRIPTOR 2 1 2 3]
    interface_settings_init_class_check [of HUB 2 1 2 3]
    interface_settings_init_class_check [of BILLBOARD 2 1 2 3]
    interface_settings_init_class_check [of HID 2 1 2 3]
  by (simp add: ex_setting0_def)

text \<open>
  C5. Constructing a \<open>usb_interface\<close> from settings that have the key 0 succeeds:
  \<open>get_selected_setting_number()\<close> of the new interface is 0 and its header is length 9,
  type 4, the interface number, 0, and then the five fields of setting 0. From settings
  without the key 0 the constructor throws argument-out-of-domain.
\<close>

theorem usb_interface_init_selects_zero:
  "(map_of p_settings 0 = Some st \<longrightarrow>
      (\<exists>this. usb_interface_init uninit uninit_selected p_iface_number p_ctrl_endpoint p_settings
                 = Inr this \<and>
              get_selected_setting_number this = 0 \<and>
              m_packed_data this =
                [9, 4, p_iface_number, 0, m_num_endpoints st, usb_class_code_u8 (m_class st),
                 m_subclass st, m_protocol st, m_str_name_idx st])) \<and>
   (map_of p_settings 0 = None \<longrightarrow>
      usb_interface_init uninit uninit_selected p_iface_number p_ctrl_endpoint p_settings
        = Inl argument_out_of_domain)"
  by (simp add: usb_interface_init_def uninit_array9_def set_setting_found set_setting_missing
      get_selected_setting_number_def)

theorem usb_interface_init_selects_zero_witness:
  "usb_interface_init (\<lambda>_. 0xAA) 0xBB 7 ex_endpoint [(0, ex_setting0), (1, ex_setting1)]
     = Inr ex_iface0 \<and>
   get_selected_setting_number ex_iface0 = 0 \<and>
   usb_interface_init (\<lambda>_. 0xAA) 0xBB 7 ex_endpoint [(1, ex_setting1)]
     = Inl argument_out_of_domain"
proof -
  have present: "map_of [(0 :: u8, ex_setting0), (1, ex_setting1)] 0 = Some ex_setting0"
    by simp
  have absent: "map_of [(1 :: u8, ex_setting1)] 0 = None"
    by simp
  have sel: "get_selected_setting_number ex_iface0 = 0"
    by (simp add: get_selected_setting_number_def ex_iface0_def)
  from usb_interface_init_selects_zero
         [where p_settings = "[(1, ex_setting1)]" and uninit = "\<lambda>_. 0xAA"
            and uninit_selected = "0xBB" and p_iface_number = 7
            and p_ctrl_endpoint = ex_endpoint] absent
  have "usb_interface_init (\<lambda>_. 0xAA) 0xBB 7 ex_endpoint [(1, ex_setting1)]
     = Inl argument_out_of_domain"
    by simp
  moreover
  from usb_interface_init_selects_zero
         [where p_settings = "[(0, ex_setting0), (1, ex_setting1)]" and st = ex_setting0
            and uninit = "\<lambda>_. 0xAA" and uninit_selected = "0xBB" and p_iface_number = 7
            and p_ctrl_endpoint = ex_endpoint]
       present
  have "\<exists>this. usb_interface_init (\<lambda>_. 0xAA) 0xBB 7 ex_endpoint [(0, ex_setting0), (1, ex_setting1)]
          = Inr this"
    by auto
  ultimately show ?thesis using sel ex_iface0_built by simp
qed

text \<open>
  C6 (as amended). After construction and any run of successful \<open>set_setting\<close> calls,
  \<open>get_interface_number()\<close> is header byte 2, the number given to the constructor.
  \<open>get_selected_setting_number()\<close> is the member \<open>m_selected_setting_number\<close>, which
  holds the index of the last successful \<open>set_setting\<close> (0 when there was none). Header
  byte 3 is 0 in every such state: \<open>set_setting\<close> does not write it.
\<close>

theorem accessors_after_set_settings:
  assumes "usb_interface_init uninit uninit_selected p_iface_number p_ctrl_endpoint p_settings
             = Inr this0"
      and "set_settings this0 ns = Some this"
  shows "get_interface_number this = m_packed_data this ! 2 \<and>
         get_interface_number this = p_iface_number \<and>
         get_selected_setting_number this = m_selected_setting_number this \<and>
         get_selected_setting_number this = last (0 # ns) \<and>
         m_packed_data this ! 3 = 0"
proof -
  from usb_interface_init_result [OF assms(1)]
  have init: "length (m_packed_data this0) = 9" "take 4 (m_packed_data this0) = [9, 4, p_iface_number, 0]"
    "m_selected_setting_number this0 = 0"
    by simp_all
  from set_settings_invariant [OF assms(2) init(1)] init
  have fin: "take 4 (m_packed_data this) = [9, 4, p_iface_number, 0]"
    "m_selected_setting_number this = last (0 # ns)"
    by simp_all
  have "m_packed_data this ! 2 = take 4 (m_packed_data this) ! 2"
    and "m_packed_data this ! 3 = take 4 (m_packed_data this) ! 3"
    by simp_all
  with fin(1) have "m_packed_data this ! 2 = p_iface_number" and "m_packed_data this ! 3 = 0"
    by simp_all
  with fin(2) show ?thesis
    by (simp add: get_interface_number_def get_selected_setting_number_def)
qed

theorem accessors_after_set_settings_witness:
  "usb_interface_init (\<lambda>_. 0xAA) 0xBB 7 ex_endpoint [(0, ex_setting0), (1, ex_setting1)]
     = Inr ex_iface0 \<and>
   set_settings ex_iface0 [1, 0] = Some ex_iface0 \<and>
   get_interface_number ex_iface0 = 7 \<and>
   get_selected_setting_number ex_iface0 = 0 \<and>
   m_packed_data ex_iface0 ! 3 = 0"
proof -
  have again: "set_setting ex_iface1 0 = (Inr (), ex_iface0)"
    by (simp add: set_setting_def get_interface_setting_def ex_iface0_def ex_iface1_def
        ex_setting0_def ex_setting1_def)
  have run: "set_settings ex_iface0 [1, 0] = Some ex_iface0"
    by (simp add: ex_iface1_selected again)
  have "get_interface_number ex_iface0 = 7 \<and>
        get_selected_setting_number ex_iface0 = last (0 # [1, 0]) \<and>
        m_packed_data ex_iface0 ! 3 = 0"
    using accessors_after_set_settings [OF ex_iface0_built run] by blast
  then have "get_interface_number ex_iface0 = 7 \<and>
        get_selected_setting_number ex_iface0 = 0 \<and>
        m_packed_data ex_iface0 ! 3 = 0"
    by simp
  with ex_iface0_built run show ?thesis by blast
qed

text \<open>
  C6 as stated fails after \<open>set_setting(1)\<close>: the selected setting number is 1 and header
  byte 3 is still 0.
\<close>

theorem selected_setting_is_not_header_byte3:
  "usb_interface_init (\<lambda>_. 0xAA) 0xBB 7 ex_endpoint [(0, ex_setting0), (1, ex_setting1)]
     = Inr ex_iface0 \<and>
   set_settings ex_iface0 [1] = Some ex_iface1 \<and>
   get_selected_setting_number ex_iface1 = 1 \<and>
   m_packed_data ex_iface1 ! 3 = 0 \<and>
   get_selected_setting_number ex_iface1 \<noteq> m_packed_data ex_iface1 ! 3"
proof -
  have "set_settings ex_iface0 [1] = Some ex_iface1"
    by (simp add: ex_iface1_selected)
  moreover have "get_selected_setting_number ex_iface1 = 1" and "m_packed_data ex_iface1 ! 3 = 0"
    by (simp_all add: get_selected_setting_number_def ex_iface1_def)
  ultimately show ?thesis
    using ex_iface0_built by simp
qed

text \<open>
  C7. No call of \<open>set_setting\<close> writes to the control endpoint: the endpoint behind
  \<open>m_ctrl_endpoint\<close> is after the call what it was before, which is not what a write of
  any buffer would have left. On the example interface \<open>set_setting(1)\<close> succeeds and the
  endpoint has still received nothing.
\<close>

theorem set_setting_leaves_ctrl_endpoint:
  "m_ctrl_endpoint (snd (set_setting this i)) = m_ctrl_endpoint this \<and>
   m_ctrl_endpoint (snd (set_setting this i))
     \<noteq> ctrl_endpoint_write (m_ctrl_endpoint this) p_buffer \<and>
   set_setting ex_iface0 1 = (Inr (), ex_iface1) \<and>
   m_ctrl_endpoint ex_iface0 = ex_endpoint \<and>
   m_ctrl_endpoint ex_iface1 = ex_endpoint \<and>
   written (m_ctrl_endpoint (snd (set_setting ex_iface0 1))) = []"
proof -
  have general: "m_ctrl_endpoint (snd (set_setting this i)) = m_ctrl_endpoint this"
    by (simp add: set_setting_def Let_def split: sum.split)
  have "written (ctrl_endpoint_write (m_ctrl_endpoint this) p_buffer)
          \<noteq> written (m_ctrl_endpoint this)"
    by (simp add: ctrl_endpoint_write_def)
  then have no_write:
    "m_ctrl_endpoint (snd (set_setting this i))
       \<noteq> ctrl_endpoint_write (m_ctrl_endpoint this) p_buffer"
    unfolding general by auto
  have idle: "written (m_ctrl_endpoint (snd (set_setting ex_iface0 1))) = []"
    by (simp add: ex_iface1_selected ex_iface1_def ex_endpoint_def)
  have "m_ctrl_endpoint ex_iface0 = ex_endpoint" and "m_ctrl_endpoint ex_iface1 = ex_endpoint"
    by (simp_all add: ex_iface0_def ex_iface1_def)
  with general no_write idle ex_iface1_selected show ?thesis
    by blast
qed

text \<open>
  C8. \<open>pack_u16_le\<close> returns two bytes, low byte first: \<open>pack_u16_le(0x1234)\<close> is
  \<open>{0x34, 0x12}\<close>, and for every 16-bit \<open>v\<close> the first byte plus 256 times the second
  is \<open>v\<close> again.
\<close>

theorem pack_u16_le_round_trip:
  "pack_u16_le 0x1234 = [0x34, 0x12] \<and>
   length (pack_u16_le v) = 2 \<and>
   unat (pack_u16_le v ! 0) + 256 * unat (pack_u16_le v ! 1) = unat v"
proof -
  have "unat v < 65536"
    using unsigned_less [of v, where 'a = nat] by simp
  then have high: "unat v div 256 mod 256 = unat v div 256"
    by simp
  have b0: "unat (ucast v :: u8) = unat v mod 256"
    by (simp add: unsigned_ucast_eq take_bit_eq_mod)
  have "unat (ucast (drop_bit 8 v) :: u8) = take_bit 8 (drop_bit 8 (unat v))"
    unfolding unsigned_ucast_eq unat_drop_bit_eq by simp
  then have b1: "unat (ucast (drop_bit 8 v) :: u8) = unat v div 256"
    by (simp add: take_bit_eq_mod drop_bit_eq_div high)
  have example: "pack_u16_le 0x1234 = [0x34, 0x12]"
    by (simp add: pack_u16_le_def)
  show ?thesis
    using example by (simp add: pack_u16_le_bytes b0 b1)
qed

text \<open>
  C9. In the header of every configuration the attribute byte (byte 7) has bit 7 set, bit 6
  equal to the self-powered flag, bit 5 equal to the remote-wakeup flag and bits 0 to 4
  clear; \<open>get_attributes()\<close> returns the two flags and \<open>get_max_power()\<close> the max power
  given. With self-powered, no remote wakeup and max power 50 the attribute byte is
  \<open>0b1100_0000\<close> and byte 8 is 50.
\<close>

theorem usb_configuration_attributes:
  "bit (m_cfg_packed_data (usb_configuration_init uninit ifaces sp rw mp) ! 7) 7 \<and>
   bit (m_cfg_packed_data (usb_configuration_init uninit ifaces sp rw mp) ! 7) 6 = sp \<and>
   bit (m_cfg_packed_data (usb_configuration_init uninit ifaces sp rw mp) ! 7) 5 = rw \<and>
   m_cfg_packed_data (usb_configuration_init uninit ifaces sp rw mp) ! 7 AND 0x1F = 0 \<and>
   get_attributes (usb_configuration_init uninit ifaces sp rw mp)
     = \<lparr> self_powered = sp, remote_wakeup = rw \<rparr> \<and>
   get_max_power (usb_configuration_init uninit ifaces sp rw mp) = mp \<and>
   m_cfg_packed_data (usb_configuration_init uninit ifaces True False 50) ! 7 = 0xC0 \<and>
   m_cfg_packed_data (usb_configuration_init uninit ifaces True False 50) ! 8 = 50"
proof -
  have bm: "m_cfg_packed_data (usb_configuration_init uninit ifaces a b m) ! 7
              = 0x80 + (if a then 0x40 else 0) + (if b then 0x20 else 0)" for a b m
    by (simp add: usb_configuration_init_header)
  have mp: "m_cfg_packed_data (usb_configuration_init uninit ifaces a b m) ! 8 = m" for a b m
    by (simp add: usb_configuration_init_header)
  have bits: "bit (m_cfg_packed_data (usb_configuration_init uninit ifaces sp rw mp) ! 7) 7"
    "bit (m_cfg_packed_data (usb_configuration_init uninit ifaces sp rw mp) ! 7) 6 = sp"
    "bit (m_cfg_packed_data (usb_configuration_init uninit ifaces sp rw mp) ! 7) 5 = rw"
    "m_cfg_packed_data (usb_configuration_init uninit ifaces sp rw mp) ! 7 AND 0x1F = 0"
    unfolding bm by (cases sp; cases rw; simp add: bit_iff_odd_drop_bit)+
  have attrs: "get_attributes (usb_configuration_init uninit ifaces sp rw mp)
     = \<lparr> self_powered = sp, remote_wakeup = rw \<rparr>"
    unfolding get_attributes_def Let_def bm by (cases sp; cases rw; simp)
  show ?thesis
    using bits attrs by (simp add: get_max_power_def mp bm)
qed

text \<open>
  C10. The constructor of \<open>usb_configuration\<close> assigns header bytes 0, 1, 2, 3, 4, 7 and
  8, each from its arguments alone; bytes 5 and 6 are what the storage held before the
  constructor ran. The accessors and \<open>write_descriptors\<close> only read the header (none of
  them yields a changed configuration). So \<open>get_number()\<close> returns the byte the storage
  happened to hold at index 5: any value \<open>v\<close>, when the storage held \<open>v\<close>.
\<close>

theorem usb_configuration_init_bytes_5_6:
  "m_cfg_packed_data (usb_configuration_init uninit ifaces sp rw mp) =
     [9, 2,
      pack_u16_le (add_total_lengths 9 ifaces) ! 0,
      pack_u16_le (add_total_lengths 9 ifaces) ! 1,
      of_nat (length ifaces),
      uninit 5,
      uninit 6,
      0x80 + (if sp then 0x40 else 0) + (if rw then 0x20 else 0),
      mp] \<and>
   get_number (usb_configuration_init uninit ifaces sp rw mp) = uninit 5 \<and>
   get_number (usb_configuration_init (\<lambda>k. v) ifaces sp rw mp) = v"
  by (simp add: usb_configuration_init_header get_number_def pack_u16_le_bytes)

end
